theory Spec2Isabelle
  imports Complex_Main
begin

section \<open>Exceptions as values\<close>

text \<open>
  The program is Python on top of the torch tensor library. Every exception the modelled
  operations can raise is a constructor of \<open>error\<close>: torch raises \<open>RuntimeError\<close> for a
  shape that cannot be expanded or broadcast, for a negative dimension and for a tensor that
  cannot be allocated, \<open>IndexError\<close> for a dimension that a tensor does not have and
  \<open>TypeError\<close> for a size that is no 64-bit integer, and Python raises \<open>KeyError\<close> for a
  dictionary key that is absent. A computation that may raise returns \<open>error + 'a\<close>,
  \<open>Inl\<close> being the exception.
\<close>

datatype error = RuntimeError | IndexError | KeyError | TypeError

definition and_then :: "error + 'a \<Rightarrow> ('a \<Rightarrow> error + 'b) \<Rightarrow> error + 'b" where
  "and_then m f = (case m of Inl e \<Rightarrow> Inl e | Inr v \<Rightarrow> f v)"

fun collect :: "(error + 'a) list \<Rightarrow> error + 'a list" where
  "collect [] = Inr []"
| "collect (r # rs) =
     (case r of
        Inl e \<Rightarrow> Inl e
      | Inr v \<Rightarrow> (case collect rs of Inl e \<Rightarrow> Inl e | Inr vs \<Rightarrow> Inr (v # vs)))"

section \<open>Tensors\<close>

text \<open>
  A tensor is its shape (the list of its dimension sizes, outermost first) and its entries,
  read by a multi-index. Entries are real numbers: the model follows the arithmetic of the
  formulas, not the rounding of 32-bit floats, so what depends on rounding, underflow or
  overflow (whether two different arguments still give two different results, for one) is
  outside it. Only the entries at indices inside the shape belong to the tensor
  (\<open>in_range\<close>).
\<close>

record tensor =
  shape :: "nat list"
  entry :: "nat list \<Rightarrow> real"

definition in_range :: "nat list \<Rightarrow> nat list \<Rightarrow> bool" where
  "in_range s idx = list_all2 (<) idx s"

text \<open>
  Reading a tensor of shape \<open>s\<close> through a larger, broadcast shape: the index is aligned with
  \<open>s\<close> at the right, and a dimension of size 1 is always read at position 0.
\<close>

definition bidx :: "nat list \<Rightarrow> nat list \<Rightarrow> nat list" where
  "bidx s idx = map2 (\<lambda>i d. if d = 1 then 0 else i) (drop (length idx - length s) idx) s"

text \<open>\<open>t.size(d)\<close> for a dimension \<open>d \<ge> 0\<close>.\<close>

definition size_t :: "tensor \<Rightarrow> nat \<Rightarrow> error + int" where
  "size_t t d = (if d < length (shape t) then Inr (int (shape t ! d)) else Inl IndexError)"

text \<open>\<open>t.unsqueeze(d)\<close> for \<open>d \<ge> 0\<close>: a new dimension of size 1 at position \<open>d\<close>.\<close>

definition unsqueeze :: "tensor \<Rightarrow> nat \<Rightarrow> error + tensor" where
  "unsqueeze t d =
     (if d \<le> length (shape t)
      then Inr \<lparr>shape = take d (shape t) @ [1] @ drop d (shape t),
                entry = \<lambda>idx. entry t (take d idx @ drop (Suc d) idx)\<rparr>
      else Inl IndexError)"

text \<open>
  \<open>t.expand(size)\<close>. The requested sizes are Python integers. They are aligned with the
  shape of \<open>t\<close> at the right. A requested size for an existing dimension must be the size the
  dimension has, or \<open>-1\<close> (keep it), unless the dimension has size 1, which expands to any
  size; a requested size for a new leading dimension must not be negative. Anything else
  raises \<open>RuntimeError\<close>, as does a request with fewer dimensions than the tensor has.
\<close>

definition expand_new :: "int \<Rightarrow> error + nat" where
  "expand_new s = (if s < 0 then Inl RuntimeError else Inr (nat s))"

definition expand_dim :: "int \<Rightarrow> nat \<Rightarrow> error + nat" where
  "expand_dim s d =
     (if s = - 1 then Inr d
      else if s < 0 then Inl RuntimeError
      else if nat s = d then Inr d
      else if d = 1 then Inr (nat s)
      else Inl RuntimeError)"

definition expand :: "tensor \<Rightarrow> int list \<Rightarrow> error + tensor" where
  "expand t sz =
     (let r = length (shape t); n = length sz in
      if n < r then Inl RuntimeError
      else (case collect (map expand_new (take (n - r) sz) @
                          map2 expand_dim (drop (n - r) sz) (shape t)) of
              Inl e \<Rightarrow> Inl e
            | Inr s \<Rightarrow> Inr \<lparr>shape = s, entry = \<lambda>idx. entry t (bidx (shape t) idx)\<rparr>))"

text \<open>
  Binary arithmetic broadcasts its operands to a common shape: the shapes are aligned at the
  right, two sizes are compatible when they are equal or one of them is 1, and a missing
  leading dimension counts as 1. Incompatible shapes raise \<open>RuntimeError\<close>.
  \<open>bcast_rev\<close> works on the reversed shapes.
\<close>

fun bcast_rev :: "nat list \<Rightarrow> nat list \<Rightarrow> error + nat list" where
  "bcast_rev [] bs = Inr bs"
| "bcast_rev (a # as) [] = Inr (a # as)"
| "bcast_rev (a # as) (b # bs) =
     (if a = b \<or> b = 1
      then (case bcast_rev as bs of Inl e \<Rightarrow> Inl e | Inr cs \<Rightarrow> Inr (a # cs))
      else if a = 1
      then (case bcast_rev as bs of Inl e \<Rightarrow> Inl e | Inr cs \<Rightarrow> Inr (b # cs))
      else Inl RuntimeError)"

definition broadcast_shapes :: "nat list \<Rightarrow> nat list \<Rightarrow> error + nat list" where
  "broadcast_shapes a b =
     (case bcast_rev (rev a) (rev b) of Inl e \<Rightarrow> Inl e | Inr cs \<Rightarrow> Inr (rev cs))"

definition binop :: "(real \<Rightarrow> real \<Rightarrow> real) \<Rightarrow> tensor \<Rightarrow> tensor \<Rightarrow> error + tensor" where
  "binop f a b =
     (case broadcast_shapes (shape a) (shape b) of
        Inl e \<Rightarrow> Inl e
      | Inr s \<Rightarrow>
          Inr \<lparr>shape = s,
               entry = \<lambda>idx. f (entry a (bidx (shape a) idx)) (entry b (bidx (shape b) idx))\<rparr>)"

text \<open>
  \<open>a + b\<close>, \<open>a - b\<close>, \<open>a * b\<close> and \<open>a / b\<close> on two tensors. Division by zero raises nothing
  in torch (the quotient is an infinity or NaN); every divisor of this program is positive.
\<close>

definition add :: "tensor \<Rightarrow> tensor \<Rightarrow> error + tensor" where
  "add = binop (+)"

definition sub :: "tensor \<Rightarrow> tensor \<Rightarrow> error + tensor" where
  "sub = binop (-)"

definition mul :: "tensor \<Rightarrow> tensor \<Rightarrow> error + tensor" where
  "mul = binop (*)"

definition div_t :: "tensor \<Rightarrow> tensor \<Rightarrow> error + tensor" where
  "div_t = binop (/)"

text \<open>Elementwise operations with one tensor operand keep the shape and cannot fail.\<close>

definition tmap :: "(real \<Rightarrow> real) \<Rightarrow> tensor \<Rightarrow> tensor" where
  "tmap f t = \<lparr>shape = shape t, entry = \<lambda>idx. f (entry t idx)\<rparr>"

text \<open>
  \<open>t.pow(p)\<close>. The program uses the exponents 2 and 0.5 only. With exponent 0.5 torch gives
  NaN on a negative base, which the reals do not have; the program takes this root of sums
  of squares and of \<open>1 + alpha^2\<close> only.
\<close>

definition rpow :: "real \<Rightarrow> real \<Rightarrow> real" where
  "rpow x p = (if p = 2 then x * x else if p = 1 / 2 then sqrt x else x powr p)"

definition pow :: "tensor \<Rightarrow> real \<Rightarrow> tensor" where
  "pow t p = tmap (\<lambda>x. rpow x p) t"

definition exp_t :: "tensor \<Rightarrow> tensor" where
  "exp_t = tmap exp"

definition log_t :: "tensor \<Rightarrow> tensor" where
  "log_t = tmap ln"

definition neg :: "tensor \<Rightarrow> tensor" where
  "neg = tmap uminus"

text \<open>\<open>c * t\<close> and \<open>t / c\<close> for a Python number \<open>c\<close>.\<close>

definition smul :: "real \<Rightarrow> tensor \<Rightarrow> tensor" where
  "smul c = tmap (\<lambda>x. c * x)"

definition sdiv :: "tensor \<Rightarrow> real \<Rightarrow> tensor" where
  "sdiv t c = tmap (\<lambda>x. x / c) t"

definition ones_like :: "tensor \<Rightarrow> tensor" where
  "ones_like t = \<lparr>shape = shape t, entry = \<lambda>idx. 1\<rparr>"

text \<open>\<open>t.sum(-1)\<close>: the sum over the last dimension, which disappears from the shape.\<close>

definition sum_last :: "tensor \<Rightarrow> tensor" where
  "sum_last t =
     (if shape t = [] then t
      else \<lparr>shape = butlast (shape t),
            entry = \<lambda>idx. sum_list (map (\<lambda>k. entry t (idx @ [k])) [0..<last (shape t)])\<rparr>)"

section \<open>The RBF layer\<close>

record rbf =
  in_features :: int
  out_features :: int
  centers :: tensor
  log_sigmas :: tensor
  basis_func :: "tensor \<Rightarrow> error + tensor"

text \<open>
  \<open>RBF.forward\<close>, as a function of the values of the layer and of the input; the layer
  is returned beside the result. What the call does to the tensors and to the module object
  that the program holds is the subject of the store model below, where the same method is
  written over storages that can be overwritten.
\<close>

definition forward :: "rbf \<Rightarrow> tensor \<Rightarrow> (error + tensor) \<times> rbf" where
  "forward self input =
     (and_then (size_t input 0) (\<lambda>n.
        let sz = [n, out_features self, in_features self] in
        and_then (unsqueeze input 1) (\<lambda>xu.
        and_then (expand xu sz) (\<lambda>x.
        and_then (unsqueeze (centers self) 0) (\<lambda>cu.
        and_then (expand cu sz) (\<lambda>c.
        and_then (sub x c) (\<lambda>d.
        and_then (unsqueeze (exp_t (log_sigmas self)) 0) (\<lambda>s.
        and_then (div_t (pow (sum_last (pow d 2)) (1 / 2)) s) (\<lambda>distances.
        basis_func self distances)))))))),
      self)"

subsection \<open>Construction\<close>

text \<open>
  \<open>torch.Tensor(d1, ..., dn)\<close> allocates a tensor of the given sizes. The sizes are Python
  integers, which are unbounded: a size outside the signed 64-bit range does not pass the
  parsing of the arguments and raises \<open>TypeError\<close>; a negative size raises \<open>RuntimeError\<close>;
  and so does a tensor for which the machine has no memory, which is for the allocator of
  the machine to decide (\<open>can_alloc\<close>, on the shape). A size of zero is accepted and gives a
  tensor without entries. The new tensor holds whatever the memory held (\<open>mem\<close>).
  \<open>nn.init.normal_\<close> overwrites every entry with a draw from the normal distribution of the
  given mean and standard deviation (\<open>draw\<close> is the standard normal sample, one value an
  index), \<open>nn.init.constant_\<close> with the given value. \<open>nn.Parameter\<close> wraps a tensor and
  changes neither shape nor entries. The two initialisers are \<open>init_normal\<close> and
  \<open>init_constant\<close> here, a name not being allowed to end in an underscore.
\<close>

definition Tensor_new ::
  "(nat list \<Rightarrow> bool) \<Rightarrow> int list \<Rightarrow> (nat list \<Rightarrow> real) \<Rightarrow> error + tensor"
where
  "Tensor_new can_alloc dims mem =
     (if list_ex (\<lambda>d. d < - (2 ^ 63) \<or> 2 ^ 63 \<le> d) dims then Inl TypeError
      else if list_ex (\<lambda>d. d < 0) dims then Inl RuntimeError
      else if \<not> can_alloc (map nat dims) then Inl RuntimeError
      else Inr \<lparr>shape = map nat dims, entry = mem\<rparr>)"

definition init_normal :: "tensor \<Rightarrow> real \<Rightarrow> real \<Rightarrow> (nat list \<Rightarrow> real) \<Rightarrow> tensor" where
  "init_normal t mean std draw = t\<lparr>entry := \<lambda>idx. mean + std * draw idx\<rparr>"

definition init_constant :: "tensor \<Rightarrow> real \<Rightarrow> tensor" where
  "init_constant t v = t\<lparr>entry := \<lambda>idx. v\<rparr>"

definition reset_parameters :: "rbf \<Rightarrow> (nat list \<Rightarrow> real) \<Rightarrow> rbf" where
  "reset_parameters self draw =
     self\<lparr>centers := init_normal (centers self) 0 1 draw,
          log_sigmas := init_constant (log_sigmas self) 0\<rparr>"

text \<open>\<open>RBF.__init__\<close>, returning the constructed layer.\<close>

definition RBF_init ::
  "(nat list \<Rightarrow> bool) \<Rightarrow> int \<Rightarrow> int \<Rightarrow> (tensor \<Rightarrow> error + tensor) \<Rightarrow>
     (nat list \<Rightarrow> real) \<Rightarrow> (nat list \<Rightarrow> real) \<Rightarrow> error + rbf"
where
  "RBF_init can_alloc in_feat out_feat basis mem draw =
     and_then (Tensor_new can_alloc [out_feat, in_feat] mem) (\<lambda>c.
     and_then (Tensor_new can_alloc [out_feat] mem) (\<lambda>s.
     Inr (reset_parameters
            \<lparr>in_features = in_feat, out_features = out_feat, centers = c,
             log_sigmas = s, basis_func = basis\<rparr> draw)))"

section \<open>The basis functions\<close>

text \<open>
  Each function is written with the tensor operations of its source line, in the order
  Python evaluates them. \<open>3**0.5\<close> and \<open>5**0.5\<close> are the square roots of 3 and 5, and
  \<open>-3**0.5\<close> is the negated root (the power binds tighter than the sign).
\<close>

definition gaussian :: "tensor \<Rightarrow> error + tensor" where
  "gaussian alpha = Inr (exp_t (smul (- 1) (pow alpha 2)))"

definition linear :: "tensor \<Rightarrow> error + tensor" where
  "linear alpha = Inr alpha"

definition quadratic :: "tensor \<Rightarrow> error + tensor" where
  "quadratic alpha = Inr (pow alpha 2)"

definition inverse_quadratic :: "tensor \<Rightarrow> error + tensor" where
  "inverse_quadratic alpha =
     and_then (add (ones_like alpha) (pow alpha 2)) (\<lambda>d.
     div_t (ones_like alpha) d)"

definition multiquadric :: "tensor \<Rightarrow> error + tensor" where
  "multiquadric alpha =
     and_then (add (ones_like alpha) (pow alpha 2)) (\<lambda>s.
     Inr (pow s (1 / 2)))"

definition inverse_multiquadric :: "tensor \<Rightarrow> error + tensor" where
  "inverse_multiquadric alpha =
     and_then (add (ones_like alpha) (pow alpha 2)) (\<lambda>s.
     div_t (ones_like alpha) (pow s (1 / 2)))"

definition spline :: "tensor \<Rightarrow> error + tensor" where
  "spline alpha =
     and_then (add alpha (ones_like alpha)) (\<lambda>s.
     mul (pow alpha 2) (log_t s))"

definition poisson_one :: "tensor \<Rightarrow> error + tensor" where
  "poisson_one alpha =
     and_then (sub alpha (ones_like alpha)) (\<lambda>d.
     mul d (exp_t (neg alpha)))"

text \<open>
  The source line of \<open>poisson_two\<close> is
  \<open>((alpha - 2*ones) / 2*ones) * alpha * exp(-alpha)\<close>: the difference is divided by the
  number 2, and the quotient is multiplied by the tensor of ones.
\<close>

definition poisson_two :: "tensor \<Rightarrow> error + tensor" where
  "poisson_two alpha =
     and_then (sub alpha (smul 2 (ones_like alpha))) (\<lambda>d.
     and_then (mul (sdiv d 2) (ones_like alpha)) (\<lambda>q.
     and_then (mul q alpha) (\<lambda>r.
     mul r (exp_t (neg alpha)))))"

definition matern32 :: "tensor \<Rightarrow> error + tensor" where
  "matern32 alpha =
     and_then (add (ones_like alpha) (smul (sqrt 3) alpha)) (\<lambda>s.
     mul s (exp_t (smul (- sqrt 3) alpha)))"

definition matern52 :: "tensor \<Rightarrow> error + tensor" where
  "matern52 alpha =
     and_then (add (ones_like alpha) (smul (sqrt 5) alpha)) (\<lambda>s.
     and_then (add s (smul (5 / 3) (pow alpha 2))) (\<lambda>u.
     mul u (exp_t (smul (- sqrt 5) alpha))))"

text \<open>
  \<open>basis_func_dict()\<close> returns a dictionary literal: its keys in the order of the source.
  \<open>getitem\<close> is Python's subscript \<open>d[k]\<close>, which raises \<open>KeyError\<close> for an absent key.
\<close>

definition basis_func_dict :: "(string \<times> (tensor \<Rightarrow> error + tensor)) list" where
  "basis_func_dict =
     [(''gaussian'', gaussian),
      (''linear'', linear),
      (''quadratic'', quadratic),
      (''inverse quadratic'', inverse_quadratic),
      (''multiquadric'', multiquadric),
      (''inverse multiquadric'', inverse_multiquadric),
      (''spline'', spline),
      (''poisson one'', poisson_one),
      (''poisson two'', poisson_two),
      (''matern32'', matern32),
      (''matern52'', matern52)]"

definition getitem :: "('k \<times> 'v) list \<Rightarrow> 'k \<Rightarrow> error + 'v" where
  "getitem d k = (case map_of d k of None \<Rightarrow> Inl KeyError | Some v \<Rightarrow> Inr v)"

section \<open>The layer in a store\<close>

text \<open>
  To say what a call changes, the program state is made explicit. The tensors of the
  program live in storages, numbered from 0 in the order of their allocation. A tensor
  object (\<open>tref\<close>) is the address of a storage and a view of it, since several tensor
  objects can share one storage. The attributes of the module object are the fields of
  \<open>rbf_obj\<close>: the two dimensions, the two parameters (tensor objects) and the basis
  function, a callable that maps a tensor to a new tensor or raises.
\<close>

record tref =
  addr :: nat
  view :: "tensor \<Rightarrow> tensor"

record rbf_obj =
  obj_in_features :: int
  obj_out_features :: int
  obj_centers :: tref
  obj_log_sigmas :: tref
  obj_basis_func :: "tensor \<Rightarrow> error + tensor"

record pystate =
  tensors :: "tensor list"
  self_obj :: rbf_obj

text \<open>The tensor that a tensor object shows in a state.\<close>

definition deref :: "pystate \<Rightarrow> tref \<Rightarrow> tensor" where
  "deref s r = view r (tensors s ! addr r)"

text \<open>
  A statement takes the state and returns a value or an exception, and the state after it.
  \<open>bind_p\<close> runs one statement after another; an exception ends the run, and the state
  stays as the raising statement left it.
\<close>

definition bind_p ::
  "(pystate \<Rightarrow> (error + 'a) \<times> pystate) \<Rightarrow> ('a \<Rightarrow> pystate \<Rightarrow> (error + 'b) \<times> pystate) \<Rightarrow>
     pystate \<Rightarrow> (error + 'b) \<times> pystate"
where
  "bind_p m f s = (case m s of (Inl e, s') \<Rightarrow> (Inl e, s') | (Inr v, s') \<Rightarrow> f v s')"

text \<open>
  Reading an attribute (\<open>self.x\<close>) and assigning one (\<open>self.x = v\<close>; the field is given by
  the update function of the record).
\<close>

definition getattr :: "(rbf_obj \<Rightarrow> 'a) \<Rightarrow> pystate \<Rightarrow> (error + 'a) \<times> pystate" where
  "getattr field s = (Inr (field (self_obj s)), s)"

definition setattr ::
  "(('a \<Rightarrow> 'a) \<Rightarrow> rbf_obj \<Rightarrow> rbf_obj) \<Rightarrow> 'a \<Rightarrow> pystate \<Rightarrow> (error + unit) \<times> pystate"
where
  "setattr field_update v s = (Inr (), s\<lparr>self_obj := field_update (\<lambda>_. v) (self_obj s)\<rparr>)"

text \<open>
  The three kinds of tensor operation of torch.
  \<^item> A view operation (\<open>unsqueeze\<close>, \<open>expand\<close>) returns a tensor object on the storage of its
    argument, and allocates nothing.
  \<^item> An out-of-place operation (arithmetic, \<open>pow\<close>, \<open>sum\<close>, \<open>exp\<close>, and the call of a basis
    function) writes its result to a new storage.
  \<^item> An in-place operation (the initialisers of \<open>nn.init\<close>, whose names end in an
    underscore) overwrites the storage of its argument, here a tensor that shows the whole of
    its storage, as a parameter does.
\<close>

definition view_op ::
  "(tensor \<Rightarrow> error + tensor) \<Rightarrow> tref \<Rightarrow> pystate \<Rightarrow> (error + tref) \<times> pystate"
where
  "view_op f r s =
     (case f (deref s r) of
        Inl e \<Rightarrow> (Inl e, s)
      | Inr u \<Rightarrow>
          (Inr \<lparr>addr = addr r,
                view = \<lambda>t. (case f (view r t) of Inl e \<Rightarrow> view r t | Inr v \<Rightarrow> v)\<rparr>, s))"

definition new_op :: "error + tensor \<Rightarrow> pystate \<Rightarrow> (error + tref) \<times> pystate" where
  "new_op res s =
     (case res of
        Inl e \<Rightarrow> (Inl e, s)
      | Inr t \<Rightarrow>
          (Inr \<lparr>addr = length (tensors s), view = \<lambda>t. t\<rparr>, s\<lparr>tensors := tensors s @ [t]\<rparr>))"

definition inplace_op ::
  "(tensor \<Rightarrow> tensor) \<Rightarrow> tref \<Rightarrow> pystate \<Rightarrow> (error + tref) \<times> pystate"
where
  "inplace_op f r s =
     (Inr r, s\<lparr>tensors := (tensors s)[addr r := f (tensors s ! addr r)]\<rparr>)"

definition size_r :: "tref \<Rightarrow> nat \<Rightarrow> pystate \<Rightarrow> (error + int) \<times> pystate" where
  "size_r r d s = (size_t (deref s r) d, s)"

definition unsqueeze_r :: "tref \<Rightarrow> nat \<Rightarrow> pystate \<Rightarrow> (error + tref) \<times> pystate" where
  "unsqueeze_r r d = view_op (\<lambda>t. unsqueeze t d) r"

definition expand_r :: "tref \<Rightarrow> int list \<Rightarrow> pystate \<Rightarrow> (error + tref) \<times> pystate" where
  "expand_r r sz = view_op (\<lambda>t. expand t sz) r"

definition sub_r :: "tref \<Rightarrow> tref \<Rightarrow> pystate \<Rightarrow> (error + tref) \<times> pystate" where
  "sub_r a b s = new_op (sub (deref s a) (deref s b)) s"

definition div_r :: "tref \<Rightarrow> tref \<Rightarrow> pystate \<Rightarrow> (error + tref) \<times> pystate" where
  "div_r a b s = new_op (div_t (deref s a) (deref s b)) s"

definition pow_r :: "tref \<Rightarrow> real \<Rightarrow> pystate \<Rightarrow> (error + tref) \<times> pystate" where
  "pow_r a p s = new_op (Inr (pow (deref s a) p)) s"

definition sum_last_r :: "tref \<Rightarrow> pystate \<Rightarrow> (error + tref) \<times> pystate" where
  "sum_last_r a s = new_op (Inr (sum_last (deref s a))) s"

definition exp_r :: "tref \<Rightarrow> pystate \<Rightarrow> (error + tref) \<times> pystate" where
  "exp_r a s = new_op (Inr (exp_t (deref s a))) s"

definition call_r ::
  "(tensor \<Rightarrow> error + tensor) \<Rightarrow> tref \<Rightarrow> pystate \<Rightarrow> (error + tref) \<times> pystate"
where
  "call_r f a s = new_op (f (deref s a)) s"

definition normal_r ::
  "tref \<Rightarrow> real \<Rightarrow> real \<Rightarrow> (nat list \<Rightarrow> real) \<Rightarrow> pystate \<Rightarrow> (error + tref) \<times> pystate"
where
  "normal_r r mean std draw = inplace_op (\<lambda>t. init_normal t mean std draw) r"

definition constant_r :: "tref \<Rightarrow> real \<Rightarrow> pystate \<Rightarrow> (error + tref) \<times> pystate" where
  "constant_r r v = inplace_op (\<lambda>t. init_constant t v) r"

text \<open>
  \<open>RBF.forward\<close>, statement by statement: the attributes are read where the source reads
  them, and every tensor operation is of the kind that torch gives it.
\<close>

definition forward_r :: "tref \<Rightarrow> pystate \<Rightarrow> (error + tref) \<times> pystate" where
  "forward_r input =
     bind_p (size_r input 0) (\<lambda>n.
     bind_p (getattr obj_out_features) (\<lambda>m.
     bind_p (getattr obj_in_features) (\<lambda>d.
     let sz = [n, m, d] in
     bind_p (unsqueeze_r input 1) (\<lambda>xu.
     bind_p (expand_r xu sz) (\<lambda>x.
     bind_p (getattr obj_centers) (\<lambda>cp.
     bind_p (unsqueeze_r cp 0) (\<lambda>cu.
     bind_p (expand_r cu sz) (\<lambda>c.
     bind_p (sub_r x c) (\<lambda>df.
     bind_p (pow_r df 2) (\<lambda>sq.
     bind_p (sum_last_r sq) (\<lambda>sm.
     bind_p (pow_r sm (1 / 2)) (\<lambda>norm.
     bind_p (getattr obj_log_sigmas) (\<lambda>lp.
     bind_p (exp_r lp) (\<lambda>ex.
     bind_p (unsqueeze_r ex 0) (\<lambda>sg.
     bind_p (div_r norm sg) (\<lambda>distances.
     bind_p (getattr obj_basis_func) (\<lambda>bf.
     call_r bf distances)))))))))))))))))"

text \<open>\<open>RBF.reset_parameters\<close>, which initialises both parameters in place.\<close>

definition reset_parameters_r ::
  "(nat list \<Rightarrow> real) \<Rightarrow> pystate \<Rightarrow> (error + tref) \<times> pystate"
where
  "reset_parameters_r draw =
     bind_p (getattr obj_centers) (\<lambda>cp.
     bind_p (normal_r cp 0 1 draw) (\<lambda>_.
     bind_p (getattr obj_log_sigmas) (\<lambda>lp.
     constant_r lp 0)))"

section \<open>Specification vocabulary\<close>

text \<open>
  A basis function applies the scalar function \<open>f\<close> elementwise when, on every tensor, it
  returns a tensor of the same shape whose entry at each index inside the shape is \<open>f\<close> of
  the argument's entry there.
\<close>

definition elementwise :: "(real \<Rightarrow> real) \<Rightarrow> (tensor \<Rightarrow> error + tensor) \<Rightarrow> bool" where
  "elementwise f bf =
     (\<forall>t. \<exists>out. bf t = Inr out \<and> shape out = shape t \<and>
        (\<forall>idx. in_range (shape t) idx \<longrightarrow> entry out idx = f (entry t idx)))"

text \<open>The formula of \<open>poisson two\<close> as the specification's table writes it.\<close>

definition poisson_two_spec :: "real \<Rightarrow> real" where
  "poisson_two_spec alpha = ((alpha - 2) / 2) * alpha * exp (- alpha)"

text \<open>
  The invariant of a layer: the dimensions are not negative, \<open>centers\<close> has
  \<open>out_features\<close> rows and \<open>in_features\<close> columns, and \<open>log_sigmas\<close> has \<open>out_features\<close>
  entries.
\<close>

definition layer_inv :: "rbf \<Rightarrow> bool" where
  "layer_inv self =
     (0 \<le> in_features self \<and> 0 \<le> out_features self \<and>
      shape (centers self) = [nat (out_features self), nat (in_features self)] \<and>
      shape (log_sigmas self) = [nat (out_features self)])"

text \<open>
  The layer that a state holds: the attributes of the module object, with the tensors that
  its two parameters show.
\<close>

definition layer_of :: "pystate \<Rightarrow> rbf" where
  "layer_of s =
     \<lparr>in_features = obj_in_features (self_obj s), out_features = obj_out_features (self_obj s),
      centers = deref s (obj_centers (self_obj s)),
      log_sigmas = deref s (obj_log_sigmas (self_obj s)),
      basis_func = obj_basis_func (self_obj s)\<rparr>"

text \<open>
  A tensor object is valid in a state when its storage exists. A state \<open>s'\<close> extends \<open>s\<close>
  when the module object is the same and every storage of \<open>s\<close> holds in \<open>s'\<close> what it held
  in \<open>s\<close>, so that \<open>s'\<close> differs by new storages only. A statement allocates only when,
  from every state, it leads to an extension of that state, whether it returns or raises.
\<close>

definition valid :: "pystate \<Rightarrow> tref \<Rightarrow> bool" where
  "valid s r = (addr r < length (tensors s))"

definition extends :: "pystate \<Rightarrow> pystate \<Rightarrow> bool" where
  "extends s s' = (self_obj s' = self_obj s \<and> (\<exists>new. tensors s' = tensors s @ new))"

definition allocates_only :: "(pystate \<Rightarrow> (error + 'a) \<times> pystate) \<Rightarrow> bool" where
  "allocates_only m = (\<forall>s. extends s (snd (m s)))"

section \<open>Concrete tensors and layers\<close>

text \<open>
  \<open>torch.tensor(v)\<close> for a number, a list of numbers and a non-empty list of rows of equal
  length.
\<close>

definition tensor0 :: "real \<Rightarrow> tensor" where
  "tensor0 v = \<lparr>shape = [], entry = \<lambda>idx. v\<rparr>"

definition tensor1 :: "real list \<Rightarrow> tensor" where
  "tensor1 xs = \<lparr>shape = [length xs], entry = \<lambda>idx. xs ! (idx ! 0)\<rparr>"

definition tensor2 :: "real list list \<Rightarrow> tensor" where
  "tensor2 rows =
     \<lparr>shape = [length rows, (case rows of [] \<Rightarrow> 0 | r # _ \<Rightarrow> length r)],
      entry = \<lambda>idx. rows ! (idx ! 0) ! (idx ! 1)\<rparr>"

text \<open>
  The layer of the specification's scenarios: two input features, one center at the origin
  with bandwidth 1.
\<close>

definition example_layer :: "(tensor \<Rightarrow> error + tensor) \<Rightarrow> rbf" where
  "example_layer basis =
     \<lparr>in_features = 2, out_features = 1, centers = tensor2 [[0, 0]],
      log_sigmas = tensor1 [0], basis_func = basis\<rparr>"

text \<open>
  For the constructor: memory that holds the value 7 everywhere, a sample of the normal
  distribution indexed by position, and a machine that has room for 1000 entries a tensor.
\<close>

definition stale_mem :: "nat list \<Rightarrow> real" where
  "stale_mem idx = 7"

definition sample_draw :: "nat list \<Rightarrow> real" where
  "sample_draw idx = 1 / 2 - real (sum_list idx)"

definition small_machine :: "nat list \<Rightarrow> bool" where
  "small_machine shp = (prod_list shp \<le> 1000)"

text \<open>
  A program state that holds the layer of the scenarios and the input \<open>[[3, 4]]\<close>: the
  storages 0 and 1 are the parameters, storage 2 is the input.
\<close>

definition whole :: "nat \<Rightarrow> tref" where
  "whole a = \<lparr>addr = a, view = \<lambda>t. t\<rparr>"

definition example_state :: pystate where
  "example_state =
     \<lparr>tensors = [tensor2 [[0, 0]], tensor1 [0], tensor2 [[3, 4]]],
      self_obj = \<lparr>obj_in_features = 2, obj_out_features = 1, obj_centers = whole 0,
                  obj_log_sigmas = whole 1, obj_basis_func = gaussian\<rparr>\<rparr>"

section \<open>Shapes and indices\<close>

lemma bcast_rev_same: "bcast_rev s s = Inr s"
  by (induction s) auto

lemma broadcast_shapes_same: "broadcast_shapes s s = Inr s"
  by (simp add: broadcast_shapes_def bcast_rev_same)

lemma broadcast_shapes_row: "broadcast_shapes [n, m] [Suc 0, m] = Inr [n, m]"
  by (simp add: broadcast_shapes_def)

lemma map2_in_range:
  "list_all2 (<) idx s \<Longrightarrow>
     map2 (\<lambda>i d. if d = (1::nat) then (0::nat) else i) idx s = idx"
  by (induction idx s rule: list_all2_induct) auto

lemma bidx_in_range: "in_range s idx \<Longrightarrow> bidx s idx = idx"
  unfolding in_range_def bidx_def
  using map2_in_range [of idx s] by (auto dest: list_all2_lengthD)

lemma bidx_2: "bidx [a, b] [i, j] = [if a = 1 then 0 else i, if b = 1 then 0 else j]"
  by (simp add: bidx_def)

lemma bidx_3:
  "bidx [a, b, c] [i, j, k] =
     [if a = 1 then 0 else i, if b = 1 then 0 else j, if c = 1 then 0 else k]"
  by (simp add: bidx_def)

lemma expand_dim_same: "expand_dim (int n) n = Inr n"
  by (simp add: expand_dim_def)

lemma expand_dim_one: "expand_dim (int n) (Suc 0) = Inr n"
  by (simp add: expand_dim_def)

lemma expand_dim_mismatch: "d \<noteq> n \<Longrightarrow> d \<noteq> 1 \<Longrightarrow> expand_dim (int n) d = Inl RuntimeError"
  by (auto simp: expand_dim_def)

lemma expand_3:
  assumes "shape t = [a, b, c]"
    and "expand_dim s1 a = Inr a'" and "expand_dim s2 b = Inr b'" and "expand_dim s3 c = Inr c'"
  shows "expand t [s1, s2, s3] =
    Inr \<lparr>shape = [a', b', c'], entry = \<lambda>idx. entry t (bidx [a, b, c] idx)\<rparr>"
  using assms by (simp add: expand_def)

lemma expand_3_fails:
  assumes "shape t = [a, b, c]"
    and "expand_dim s1 a = Inr a'" and "expand_dim s2 b = Inr b'" and "expand_dim s3 c = Inl e"
  shows "expand t [s1, s2, s3] = Inl e"
  using assms by (simp add: expand_def)

section \<open>The basis functions, entry by entry\<close>

lemmas tensor_ops =
  and_then_def add_def sub_def mul_def div_t_def binop_def broadcast_shapes_same
  bidx_in_range exp_t_def log_t_def neg_def smul_def sdiv_def pow_def tmap_def rpow_def
  ones_like_def power2_eq_square

lemma elementwise_gaussian: "elementwise (\<lambda>a. exp (- (a\<^sup>2))) gaussian"
  by (simp add: elementwise_def gaussian_def tensor_ops)

lemma elementwise_linear: "elementwise (\<lambda>a. a) linear"
  by (simp add: elementwise_def linear_def)

lemma elementwise_quadratic: "elementwise (\<lambda>a. a\<^sup>2) quadratic"
  by (simp add: elementwise_def quadratic_def tensor_ops)

lemma elementwise_inverse_quadratic: "elementwise (\<lambda>a. 1 / (1 + a\<^sup>2)) inverse_quadratic"
  by (simp add: elementwise_def inverse_quadratic_def tensor_ops)

lemma elementwise_multiquadric: "elementwise (\<lambda>a. sqrt (1 + a\<^sup>2)) multiquadric"
  by (simp add: elementwise_def multiquadric_def tensor_ops)

lemma elementwise_inverse_multiquadric:
  "elementwise (\<lambda>a. 1 / sqrt (1 + a\<^sup>2)) inverse_multiquadric"
  by (simp add: elementwise_def inverse_multiquadric_def tensor_ops)

lemma elementwise_spline: "elementwise (\<lambda>a. a\<^sup>2 * ln (a + 1)) spline"
  by (simp add: elementwise_def spline_def tensor_ops)

lemma elementwise_poisson_one: "elementwise (\<lambda>a. (a - 1) * exp (- a)) poisson_one"
  by (simp add: elementwise_def poisson_one_def tensor_ops)

lemma elementwise_poisson_two:
  "elementwise (\<lambda>a. (a - 2 * 1) / 2 * 1 * a * exp (- a)) poisson_two"
  by (simp add: elementwise_def poisson_two_def tensor_ops)

lemma elementwise_matern32:
  "elementwise (\<lambda>a. (1 + sqrt 3 * a) * exp (- sqrt 3 * a)) matern32"
  by (simp add: elementwise_def matern32_def tensor_ops)

lemma elementwise_matern52:
  "elementwise (\<lambda>a. (1 + sqrt 5 * a + 5 / 3 * a\<^sup>2) * exp (- sqrt 5 * a)) matern52"
  by (simp add: elementwise_def matern52_def tensor_ops)

lemma elementwiseD:
  assumes "elementwise f bf"
  obtains out where "bf t = Inr out" and "shape out = shape t"
    and "\<And>idx. in_range (shape t) idx \<Longrightarrow> entry out idx = f (entry t idx)"
  using assms unfolding elementwise_def by blast

section \<open>The forward transform\<close>

text \<open>
  The scaled distances that \<open>forward\<close> hands to the basis function, for a layer of \<open>M\<close>
  centers in \<open>D\<close> dimensions and an input of \<open>N\<close> rows whose length \<open>L\<close> is \<open>D\<close> or 1.
\<close>

lemma forward_distances:
  assumes c: "shape (centers self) = [M, D]"
    and s: "shape (log_sigmas self) = [M]"
    and outf: "out_features self = int M"
    and inf: "in_features self = int D"
    and x: "shape input = [N, L]"
    and l: "L = D \<or> L = 1"
  shows "\<exists>dist. fst (forward self input) = basis_func self dist \<and> shape dist = [N, M] \<and>
           (\<forall>i j. i < N \<and> j < M \<longrightarrow>
              entry dist [i, j] =
                sqrt (\<Sum>k\<leftarrow>[0..<D]. (entry input [i, if L = 1 then 0 else k] -
                                         entry (centers self) [j, k])\<^sup>2)
                  / exp (entry (log_sigmas self) [j]))"
proof -
  define xu where
    "xu = \<lparr>shape = [N, 1, L], entry = \<lambda>idx. entry input (take 1 idx @ drop (Suc 1) idx)\<rparr>"
  define xe where
    "xe = \<lparr>shape = [N, M, D], entry = \<lambda>idx. entry xu (bidx [N, 1, L] idx)\<rparr>"
  define cu where
    "cu = \<lparr>shape = [1, M, D],
           entry = \<lambda>idx. entry (centers self) (take 0 idx @ drop (Suc 0) idx)\<rparr>"
  define ce where
    "ce = \<lparr>shape = [N, M, D], entry = \<lambda>idx. entry cu (bidx [1, M, D] idx)\<rparr>"
  define d where
    "d = \<lparr>shape = [N, M, D],
          entry = \<lambda>idx. entry xe (bidx [N, M, D] idx) - entry ce (bidx [N, M, D] idx)\<rparr>"
  define su where
    "su = \<lparr>shape = [1, M],
           entry = \<lambda>idx. entry (exp_t (log_sigmas self)) (take 0 idx @ drop (Suc 0) idx)\<rparr>"
  define r where "r = pow (sum_last (pow d 2)) (1 / 2)"
  define dist where
    "dist = \<lparr>shape = [N, M],
             entry = \<lambda>idx. entry r (bidx [N, M] idx) / entry su (bidx [1, M] idx)\<rparr>"
  have 1: "size_t input 0 = Inr (int N)"
    by (simp add: size_t_def x)
  have 2: "unsqueeze input (Suc 0) = Inr xu"
    by (simp add: unsqueeze_def x xu_def)
  have "expand_dim (int D) L = Inr D"
    using l by (auto simp: expand_dim_def)
  then have 3: "expand xu [int N, int M, int D] = Inr xe"
    unfolding xe_def by (intro expand_3) (simp_all add: xu_def expand_dim_same expand_dim_one)
  have 4: "unsqueeze (centers self) 0 = Inr cu"
    by (simp add: unsqueeze_def c cu_def)
  have 5: "expand cu [int N, int M, int D] = Inr ce"
    unfolding ce_def by (intro expand_3) (simp_all add: cu_def expand_dim_same expand_dim_one)
  have 6: "sub xe ce = Inr d"
    by (simp add: sub_def binop_def xe_def ce_def d_def broadcast_shapes_same)
  have 7: "unsqueeze (exp_t (log_sigmas self)) 0 = Inr su"
    by (simp add: unsqueeze_def exp_t_def tmap_def s su_def)
  have shr: "shape r = [N, M]"
    by (simp add: r_def pow_def tmap_def sum_last_def d_def)
  have 8: "div_t r su = Inr dist"
    by (simp add: div_t_def binop_def shr su_def dist_def broadcast_shapes_row)
  have 9: "div_t (pow (sum_last (pow d 2)) (1 / 2)) su = Inr dist"
    using 8 by (simp add: r_def)
  have fw: "fst (forward self input) = basis_func self dist"
    by (simp add: forward_def and_then_def Let_def 1 2 3 4 5 6 7 9 outf inf)
  have ent: "entry dist [i, j] =
                sqrt (\<Sum>k\<leftarrow>[0..<D]. (entry input [i, if L = 1 then 0 else k] -
                                         entry (centers self) [j, k])\<^sup>2)
                  / exp (entry (log_sigmas self) [j])" if "i < N" "j < M" for i j
  proof -
    have a: "entry su (bidx [Suc 0, M] [i, j]) = exp (entry (log_sigmas self) [j])"
      using that by (auto simp: su_def bidx_2 exp_t_def tmap_def)
    have b: "entry d ([i, j] @ [k]) =
         entry input [i, if L = 1 then 0 else k] - entry (centers self) [j, k]"
      if "k < D" for k
      using that \<open>i < N\<close> \<open>j < M\<close>
      by (auto simp: d_def xe_def ce_def xu_def cu_def bidx_3)
    have "entry r (bidx [N, M] [i, j]) = entry r [i, j]"
      using that by (auto simp: bidx_2)
    also have "\<dots> = sqrt (\<Sum>k\<leftarrow>[0..<D]. (entry d ([i, j] @ [k]))\<^sup>2)"
      by (simp add: r_def pow_def tmap_def rpow_def sum_last_def d_def power2_eq_square)
    also have "\<dots> = sqrt (\<Sum>k\<leftarrow>[0..<D]. (entry input [i, if L = 1 then 0 else k] -
                                         entry (centers self) [j, k])\<^sup>2)"
      using b by (intro arg_cong [where f = sqrt] arg_cong [where f = sum_list] map_cong) auto
    finally show ?thesis
      by (simp add: dist_def a)
  qed
  show ?thesis
    using fw ent by (intro exI [of _ dist]) (simp add: dist_def)
qed

text \<open>An input whose rows are neither of length \<open>D\<close> nor of length 1 cannot be expanded.\<close>

lemma forward_not_expandable:
  assumes outf: "out_features self = int M"
    and inf: "in_features self = int D"
    and x: "shape input = [N, L]"
    and l: "L \<noteq> D" "L \<noteq> 1"
  shows "fst (forward self input) = Inl RuntimeError"
proof -
  define xu where
    "xu = \<lparr>shape = [N, 1, L], entry = \<lambda>idx. entry input (take 1 idx @ drop (Suc 1) idx)\<rparr>"
  have 1: "size_t input 0 = Inr (int N)"
    by (simp add: size_t_def x)
  have 2: "unsqueeze input (Suc 0) = Inr xu"
    by (simp add: unsqueeze_def x xu_def)
  have "expand_dim (int D) L = Inl RuntimeError"
    using l by (rule expand_dim_mismatch)
  then have 3: "expand xu [int N, int M, int D] = Inl RuntimeError"
    by (intro expand_3_fails [where a = N and b = 1 and c = L])
      (simp_all add: xu_def expand_dim_same expand_dim_one)
  show ?thesis
    by (simp add: forward_def and_then_def Let_def 1 2 3 outf inf)
qed

lemma forward_with_elementwise:
  assumes inv: "layer_inv self"
    and x: "shape input = [N, L]"
    and l: "L = nat (in_features self) \<or> L = 1"
    and f: "elementwise f (basis_func self)"
  shows "\<exists>out. fst (forward self input) = Inr out \<and> shape out = [N, nat (out_features self)] \<and>
           (\<forall>i j. i < N \<and> j < nat (out_features self) \<longrightarrow>
              entry out [i, j] =
                f (sqrt (\<Sum>k\<leftarrow>[0..<nat (in_features self)].
                           (entry input [i, if L = 1 then 0 else k] -
                            entry (centers self) [j, k])\<^sup>2)
                     / exp (entry (log_sigmas self) [j])))"
proof -
  let ?M = "nat (out_features self)" and ?D = "nat (in_features self)"
  from inv have c: "shape (centers self) = [?M, ?D]" and s: "shape (log_sigmas self) = [?M]"
    and outf: "out_features self = int ?M" and inf: "in_features self = int ?D"
    by (simp_all add: layer_inv_def)
  from forward_distances [OF c s outf inf x l]
  obtain dist where fw: "fst (forward self input) = basis_func self dist"
    and sh: "shape dist = [N, ?M]"
    and ent: "\<And>i j. i < N \<Longrightarrow> j < ?M \<Longrightarrow>
              entry dist [i, j] =
                sqrt (\<Sum>k\<leftarrow>[0..<?D]. (entry input [i, if L = 1 then 0 else k] -
                                         entry (centers self) [j, k])\<^sup>2)
                  / exp (entry (log_sigmas self) [j])"
    by blast
  from f obtain out where o: "basis_func self dist = Inr out" "shape out = shape dist"
    and oe: "\<And>idx. in_range (shape dist) idx \<Longrightarrow> entry out idx = f (entry dist idx)"
    by (rule elementwiseD [where t = dist]) blast
  have "entry out [i, j] = f (entry dist [i, j])" if "i < N" "j < ?M" for i j
    using that by (intro oe) (simp add: sh in_range_def)
  with ent fw o sh show ?thesis
    by (intro exI [of _ out]) simp
qed

lemma expand_2:
  assumes "shape t = [a, b]"
    and "expand_dim s1 a = Inr a'" and "expand_dim s2 b = Inr b'"
  shows "expand t [s1, s2] = Inr \<lparr>shape = [a', b'], entry = \<lambda>idx. entry t (bidx [a, b] idx)\<rparr>"
  using assms by (simp add: expand_def)

lemma sqrt_25: "sqrt 25 = 5"
  by (rule real_sqrt_unique) simp_all

section \<open>The claims about the forward transform\<close>

text \<open>
  Claim C1. For a layer that satisfies its invariant, with \<open>in_features = D > 0\<close> and
  \<open>out_features = M > 0\<close>, and an input batch of \<open>N \<ge> 1\<close> vectors of length \<open>D\<close>, \<open>forward\<close>
  returns a tensor of shape \<open>N \<times> M\<close> whose entry \<open>(i, j)\<close> is the basis function of the
  Euclidean distance between input row \<open>i\<close> and center \<open>j\<close>, divided by
  \<open>exp (log_sigmas[j])\<close>. The basis function is any callable that applies a scalar function
  \<open>f\<close> elementwise, as the eleven functions of the catalog do.
\<close>

theorem forward_entries:
  assumes "layer_inv self"
    and "0 < in_features self" and "0 < out_features self"
    and "shape input = [N, nat (in_features self)]" and "1 \<le> N"
    and "elementwise f (basis_func self)"
  shows "\<exists>out. fst (forward self input) = Inr out \<and> shape out = [N, nat (out_features self)] \<and>
           (\<forall>i j. i < N \<and> j < nat (out_features self) \<longrightarrow>
              entry out [i, j] =
                f (sqrt (\<Sum>k\<leftarrow>[0..<nat (in_features self)].
                           (entry input [i, k] - entry (centers self) [j, k])\<^sup>2)
                     / exp (entry (log_sigmas self) [j])))"
proof -
  let ?D = "nat (in_features self)"
  from forward_with_elementwise [OF assms(1) assms(4) _ assms(6)]
  obtain out where fw: "fst (forward self input) = Inr out"
    and sh: "shape out = [N, nat (out_features self)]"
    and ent: "\<And>i j. i < N \<Longrightarrow> j < nat (out_features self) \<Longrightarrow>
              entry out [i, j] =
                f (sqrt (\<Sum>k\<leftarrow>[0..<?D]. (entry input [i, if ?D = 1 then 0 else k] -
                                          entry (centers self) [j, k])\<^sup>2)
                     / exp (entry (log_sigmas self) [j]))"
    by blast
  have same: "(\<Sum>k\<leftarrow>[0..<?D]. (entry input [i, if ?D = 1 then 0 else k] - c k)\<^sup>2) =
              (\<Sum>k\<leftarrow>[0..<?D]. (entry input [i, k] - c k)\<^sup>2)" for i c
    by (intro arg_cong [where f = sum_list] map_cong) auto
  have "entry out [i, j] =
          f (sqrt (\<Sum>k\<leftarrow>[0..<?D]. (entry input [i, k] - entry (centers self) [j, k])\<^sup>2)
               / exp (entry (log_sigmas self) [j]))"
    if "i < N" "j < nat (out_features self)" for i j
    using ent [OF that] unfolding same .
  with fw sh show ?thesis
    by (intro exI [of _ out]) simp
qed

theorem forward_entries_witness:
  "\<exists>out. fst (forward (example_layer gaussian) (tensor2 [[3, 4]])) = Inr out \<and>
         shape out = [1, 1] \<and> entry out [0, 0] = exp (- 25)"
  using forward_entries [where f = "\<lambda>a. exp (- (a\<^sup>2))" and self = "example_layer gaussian"
      and input = "tensor2 [[3, 4]]" and N = 1]
  by (simp add: elementwise_gaussian layer_inv_def example_layer_def tensor2_def tensor1_def
      upt_conv_Cons sqrt_25)

text \<open>
  Claim C2, as the specification states it: an input whose vectors have a length other than
  \<open>in_features\<close> always makes \<open>forward\<close> fail. It fails for the layer of two input
  features at the input \<open>[[3]]\<close>, whose single vector has length 1: the call returns the
  \<open>1 \<times> 1\<close> tensor holding \<open>sqrt 18\<close>, the distance of \<open>(3, 3)\<close> to the center.
\<close>

theorem forward_length_one_accepted:
  "in_features (example_layer linear) = 2 \<and> shape (tensor2 [[3]]) = [1, 1] \<and>
   \<not> isl (fst (forward (example_layer linear) (tensor2 [[3]]))) \<and>
   shape (projr (fst (forward (example_layer linear) (tensor2 [[3]])))) = [1, 1] \<and>
   entry (projr (fst (forward (example_layer linear) (tensor2 [[3]])))) [0, 0] = sqrt 18"
  using forward_with_elementwise [where f = "\<lambda>a. a" and self = "example_layer linear"
      and input = "tensor2 [[3]]" and N = 1 and L = 1]
  by (auto simp: elementwise_linear layer_inv_def example_layer_def tensor2_def tensor1_def
      upt_conv_Cons)

text \<open>
  Claim C2, amended: when the vectors of the input have a length that is neither
  \<open>in_features\<close> nor 1, \<open>forward\<close> fails with the \<open>RuntimeError\<close> of \<open>expand\<close>, whatever the
  basis function; nothing is truncated or padded. (A length of 1 is broadcast, see C10.)
\<close>

theorem forward_shape_mismatch:
  assumes "layer_inv self"
    and "shape input = [N, L]"
    and "L \<noteq> nat (in_features self)" and "L \<noteq> 1"
  shows "fst (forward self input) = Inl RuntimeError"
proof -
  from assms(1) have "out_features self = int (nat (out_features self))"
    and "in_features self = int (nat (in_features self))"
    by (simp_all add: layer_inv_def)
  then show ?thesis
    using assms(2-4) by (rule forward_not_expandable)
qed

theorem forward_shape_mismatch_witness:
  "fst (forward (example_layer gaussian) (tensor2 [[3, 4, 5]])) = Inl RuntimeError"
  using forward_shape_mismatch [where self = "example_layer gaussian"
      and input = "tensor2 [[3, 4, 5]]" and N = 1 and L = 3]
  by (simp add: layer_inv_def example_layer_def tensor2_def tensor1_def)

text \<open>
  Claim C10. For a layer with \<open>in_features > 1\<close>, an input batch of \<open>N\<close> vectors of length
  1 is accepted: \<open>forward\<close> returns an \<open>N \<times> out_features\<close> tensor, whose entries are
  those computed from the single value of each input vector in the place of every feature.
  This is also what \<open>forward\<close> returns for the input expanded to \<open>in_features\<close> columns.
\<close>

theorem forward_broadcasts_length_one:
  assumes "layer_inv self"
    and "1 < in_features self"
    and "shape input = [N, 1]"
    and "elementwise f (basis_func self)"
  shows "\<exists>out wide out'.
           fst (forward self input) = Inr out \<and> shape out = [N, nat (out_features self)] \<and>
           expand input [int N, in_features self] = Inr wide \<and>
           shape wide = [N, nat (in_features self)] \<and>
           fst (forward self wide) = Inr out' \<and>
           (\<forall>i j. i < N \<and> j < nat (out_features self) \<longrightarrow>
              entry out [i, j] =
                f (sqrt (\<Sum>k\<leftarrow>[0..<nat (in_features self)].
                           (entry input [i, 0] - entry (centers self) [j, k])\<^sup>2)
                     / exp (entry (log_sigmas self) [j])) \<and>
              entry out [i, j] = entry out' [i, j])"
proof -
  let ?D = "nat (in_features self)" and ?M = "nat (out_features self)"
  define wide where "wide = \<lparr>shape = [N, ?D], entry = \<lambda>idx. entry input (bidx [N, 1] idx)\<rparr>"
  have inD: "in_features self = int ?D"
    using assms(2) by simp
  have "expand input [int N, int ?D] = Inr wide"
    unfolding wide_def
    using assms(3) expand_dim_same [of N] expand_dim_one [of ?D] by (intro expand_2) simp_all
  with inD have w: "expand input [int N, in_features self] = Inr wide"
    by simp
  have shw: "shape wide = [N, ?D]"
    by (simp add: wide_def)
  from forward_with_elementwise [OF assms(1) assms(3) _ assms(4)]
  obtain out where fw: "fst (forward self input) = Inr out" and sh: "shape out = [N, ?M]"
    and ent: "\<And>i j. i < N \<Longrightarrow> j < ?M \<Longrightarrow>
              entry out [i, j] =
                f (sqrt (\<Sum>k\<leftarrow>[0..<?D]. (entry input [i, 0] - entry (centers self) [j, k])\<^sup>2)
                     / exp (entry (log_sigmas self) [j]))"
    by auto
  from forward_with_elementwise [OF assms(1) shw _ assms(4)]
  obtain out' where fw': "fst (forward self wide) = Inr out'"
    and ent': "\<And>i j. i < N \<Longrightarrow> j < ?M \<Longrightarrow>
              entry out' [i, j] =
                f (sqrt (\<Sum>k\<leftarrow>[0..<?D]. (entry wide [i, if ?D = 1 then 0 else k] -
                                          entry (centers self) [j, k])\<^sup>2)
                     / exp (entry (log_sigmas self) [j]))"
    by blast
  have "entry wide [i, k] = entry input [i, 0]" if "i < N" for i k
    using that by (auto simp: wide_def bidx_2)
  then have "entry out' [i, j] = entry out [i, j]" if "i < N" "j < ?M" for i j
    using that ent ent' by simp
  with fw sh w shw fw' ent show ?thesis
    by (intro exI [of _ out] exI [of _ wide] exI [of _ out']) simp
qed

theorem forward_broadcasts_length_one_witness:
  "\<exists>out. fst (forward (example_layer gaussian) (tensor2 [[3], [0]])) = Inr out \<and>
         shape out = [2, 1] \<and> entry out [0, 0] = exp (- 18) \<and> entry out [1, 0] = 1"
  using forward_broadcasts_length_one [where f = "\<lambda>a. exp (- (a\<^sup>2))"
      and self = "example_layer gaussian" and input = "tensor2 [[3], [0]]" and N = 2]
  by (auto simp: elementwise_gaussian layer_inv_def example_layer_def tensor2_def tensor1_def
      upt_conv_Cons)

section \<open>What the forward transform changes\<close>

lemma extends_refl: "extends s s"
  by (simp add: extends_def)

lemma extends_trans: "extends s s' \<Longrightarrow> extends s' s'' \<Longrightarrow> extends s s''"
  by (auto simp: extends_def)

lemma extends_deref: "extends s s' \<Longrightarrow> valid s r \<Longrightarrow> deref s' r = deref s r"
  by (auto simp: extends_def valid_def deref_def nth_append)

lemma allocates_only_bind:
  assumes "allocates_only m" and "\<And>v. allocates_only (f v)"
  shows "allocates_only (bind_p m f)"
  unfolding allocates_only_def
proof
  fix s
  from assms(1) have 1: "extends s (snd (m s))"
    by (simp add: allocates_only_def)
  show "extends s (snd (bind_p m f s))"
  proof (cases "m s")
    case (Pair res s')
    show ?thesis
    proof (cases res)
      case (Inl e)
      with Pair 1 show ?thesis by (simp add: bind_p_def)
    next
      case (Inr v)
      from assms(2) have "extends s' (snd (f v s'))"
        by (simp add: allocates_only_def)
      with Pair Inr 1 show ?thesis
        by (auto simp: bind_p_def intro: extends_trans)
    qed
  qed
qed

lemma allocates_only_getattr: "allocates_only (getattr field)"
  by (simp add: allocates_only_def getattr_def extends_refl)

lemma allocates_only_size_r: "allocates_only (size_r r d)"
  by (simp add: allocates_only_def size_r_def extends_refl)

lemma allocates_only_view_op: "allocates_only (view_op f r)"
  by (simp add: allocates_only_def view_op_def extends_refl split: sum.splits)

lemma allocates_only_new_op: "allocates_only (\<lambda>s. new_op (g s) s)"
  by (simp add: allocates_only_def new_op_def extends_def split: sum.splits)

lemma allocates_only_unsqueeze_r: "allocates_only (unsqueeze_r r d)"
  by (simp add: unsqueeze_r_def allocates_only_view_op)

lemma allocates_only_expand_r: "allocates_only (expand_r r sz)"
  by (simp add: expand_r_def allocates_only_view_op)

lemma allocates_only_sub_r: "allocates_only (sub_r a b)"
  using allocates_only_new_op [of "\<lambda>s. sub (deref s a) (deref s b)"]
  by (simp add: sub_r_def [abs_def])

lemma allocates_only_div_r: "allocates_only (div_r a b)"
  using allocates_only_new_op [of "\<lambda>s. div_t (deref s a) (deref s b)"]
  by (simp add: div_r_def [abs_def])

lemma allocates_only_pow_r: "allocates_only (pow_r a p)"
  using allocates_only_new_op [of "\<lambda>s. Inr (pow (deref s a) p)"]
  by (simp add: pow_r_def [abs_def])

lemma allocates_only_sum_last_r: "allocates_only (sum_last_r a)"
  using allocates_only_new_op [of "\<lambda>s. Inr (sum_last (deref s a))"]
  by (simp add: sum_last_r_def [abs_def])

lemma allocates_only_exp_r: "allocates_only (exp_r a)"
  using allocates_only_new_op [of "\<lambda>s. Inr (exp_t (deref s a))"]
  by (simp add: exp_r_def [abs_def])

lemma allocates_only_call_r: "allocates_only (call_r f a)"
  using allocates_only_new_op [of "\<lambda>s. f (deref s a)"]
  by (simp add: call_r_def [abs_def])

text \<open>
  Every statement of \<open>forward\<close> reads an attribute, takes a view or writes to a new
  storage, so the whole method allocates only.
\<close>

lemma allocates_only_forward_r: "allocates_only (forward_r input)"
  unfolding forward_r_def Let_def
  by (intro allocates_only_bind allocates_only_getattr allocates_only_size_r
      allocates_only_unsqueeze_r allocates_only_expand_r allocates_only_sub_r
      allocates_only_div_r allocates_only_pow_r allocates_only_sum_last_r allocates_only_exp_r
      allocates_only_call_r)

text \<open>
  The same is false of the statements that the method does not use. An in-place
  initialiser overwrites a storage, an assignment changes the module object, and
  \<open>reset_parameters\<close>, which overwrites both parameters, does not allocate only.
\<close>

lemma constant_r_overwrites:
  "deref (snd (constant_r (whole 2) 0 example_state)) (whole 2) = init_constant (tensor2 [[3, 4]]) 0"
  by (simp add: constant_r_def inplace_op_def example_state_def whole_def deref_def)

lemma setattr_changes_object:
  "obj_in_features (self_obj (snd (setattr obj_in_features_update 5 example_state))) = 5"
  by (simp add: setattr_def example_state_def)

lemma reset_parameters_r_overwrites: "\<not> allocates_only (reset_parameters_r sample_draw)"
proof
  assume "allocates_only (reset_parameters_r sample_draw)"
  then have "extends example_state (snd (reset_parameters_r sample_draw example_state))"
    by (simp add: allocates_only_def)
  then have "deref (snd (reset_parameters_r sample_draw example_state)) (whole 0)
      = deref example_state (whole 0)"
    by (rule extends_deref) (simp add: valid_def example_state_def whole_def)
  then have "entry (deref (snd (reset_parameters_r sample_draw example_state)) (whole 0)) [0, 0]
      = entry (deref example_state (whole 0)) [0, 0]"
    by simp
  then show False
    by (simp add: reset_parameters_r_def bind_p_def getattr_def normal_r_def constant_r_def
        inplace_op_def example_state_def whole_def deref_def init_normal_def init_constant_def
        sample_draw_def tensor2_def)
qed

text \<open>
  On parameters that own two different storages, \<open>reset_parameters\<close> in the store does to
  the layer what \<open>reset_parameters\<close> does to its values.
\<close>

lemma reset_parameters_r_value:
  assumes "obj_centers (self_obj s) = whole a" and "obj_log_sigmas (self_obj s) = whole b"
    and "a < length (tensors s)" and "b < length (tensors s)" and "a \<noteq> b"
  shows "layer_of (snd (reset_parameters_r draw s)) = reset_parameters (layer_of s) draw"
  using assms
  by (simp add: reset_parameters_r_def bind_p_def getattr_def normal_r_def constant_r_def
      inplace_op_def whole_def layer_of_def deref_def reset_parameters_def)

text \<open>
  The tensor object that \<open>forward\<close> returns in the store shows what \<open>forward\<close> computes
  from the values, and an exception of the one is the exception of the other.
\<close>

lemma forward_r_value:
  assumes "valid s input" and "valid s (obj_centers (self_obj s))"
    and "valid s (obj_log_sigmas (self_obj s))"
  shows "map_sum id (deref (snd (forward_r input s))) (fst (forward_r input s)) =
           fst (forward (layer_of s) (deref s input))"
  using assms
  by (simp add: forward_r_def bind_p_def getattr_def size_r_def unsqueeze_r_def expand_r_def
      view_op_def new_op_def sub_r_def div_r_def pow_r_def sum_last_r_def exp_r_def call_r_def
      Let_def forward_def and_then_def layer_of_def valid_def deref_def nth_append
      split: sum.splits prod.splits)

lemma forward_r_fresh:
  "fst (forward_r input s) = Inr r \<Longrightarrow>
     length (tensors s) \<le> addr r \<and> addr r < length (tensors (snd (forward_r input s)))"
  by (simp add: forward_r_def bind_p_def getattr_def size_r_def unsqueeze_r_def expand_r_def
      view_op_def new_op_def sub_r_def div_r_def pow_r_def sum_last_r_def exp_r_def call_r_def
      Let_def split: sum.splits prod.splits)
    auto

text \<open>
  Claim C9. A call of \<open>forward\<close>, on a state whose input and parameters exist, leaves the
  module object as it was (\<open>in_features\<close>, \<open>out_features\<close>, the two parameter objects and
  the basis function), and every storage that existed holds what it held: the state after
  the call is the state before it followed by new storages. So the layer and the input read
  from the state are the same before and after. When the call returns, its result is a
  tensor object on one of the new storages, showing the output that \<open>forward\<close> computes
  from the values of the layer and of the input; when it raises, it raises the same
  exception.
\<close>

theorem forward_leaves_state:
  assumes "valid s input" and "valid s (obj_centers (self_obj s))"
    and "valid s (obj_log_sigmas (self_obj s))"
  shows "\<exists>res s'. forward_r input s = (res, s') \<and>
           self_obj s' = self_obj s \<and>
           (\<exists>new. tensors s' = tensors s @ new) \<and>
           layer_of s' = layer_of s \<and>
           deref s' input = deref s input \<and>
           (case res of
              Inl e \<Rightarrow> fst (forward (layer_of s) (deref s input)) = Inl e
            | Inr r \<Rightarrow>
                length (tensors s) \<le> addr r \<and> valid s' r \<and>
                fst (forward (layer_of s) (deref s input)) = Inr (deref s' r))"
proof -
  obtain res s' where run: "forward_r input s = (res, s')"
    by (cases "forward_r input s")
  from allocates_only_forward_r [of input] have ext: "extends s s'"
    using run by (auto simp: allocates_only_def dest: spec [of _ s])
  then have obj: "self_obj s' = self_obj s" and new: "\<exists>new. tensors s' = tensors s @ new"
    by (simp_all add: extends_def)
  from ext assms have keep: "deref s' input = deref s input"
    "deref s' (obj_centers (self_obj s)) = deref s (obj_centers (self_obj s))"
    "deref s' (obj_log_sigmas (self_obj s)) = deref s (obj_log_sigmas (self_obj s))"
    by (simp_all add: extends_deref)
  with obj have layer: "layer_of s' = layer_of s"
    by (simp add: layer_of_def)
  from forward_r_value [OF assms] run
  have val: "map_sum id (deref s') res = fst (forward (layer_of s) (deref s input))"
    by simp
  have "case res of
          Inl e \<Rightarrow> fst (forward (layer_of s) (deref s input)) = Inl e
        | Inr r \<Rightarrow>
            length (tensors s) \<le> addr r \<and> valid s' r \<and>
            fst (forward (layer_of s) (deref s input)) = Inr (deref s' r)"
  proof (cases res)
    case (Inl e)
    with val show ?thesis by simp
  next
    case (Inr r)
    with forward_r_fresh [of input s r] run val show ?thesis
      by (simp add: valid_def)
  qed
  with run obj new layer keep(1) show ?thesis
    by blast
qed

theorem forward_leaves_state_witness:
  "\<exists>res s'. forward_r (whole 2) example_state = (res, s') \<and>
     self_obj s' = self_obj example_state \<and>
     take 3 (tensors s') = [tensor2 [[0, 0]], tensor1 [0], tensor2 [[3, 4]]] \<and>
     layer_of s' = example_layer gaussian \<and>
     deref s' (whole 2) = tensor2 [[3, 4]] \<and>
     (\<exists>r. res = Inr r \<and> 3 \<le> addr r \<and> entry (deref s' r) [0, 0] = exp (- 25))"
proof -
  have layer: "layer_of example_state = example_layer gaussian"
    and inp: "deref example_state (whole 2) = tensor2 [[3, 4]]"
    by (simp_all add: example_state_def whole_def layer_of_def deref_def example_layer_def)
  have "\<exists>out. fst (forward (example_layer gaussian) (tensor2 [[3, 4]])) = Inr out \<and>
          entry out [0, 0] = exp (- 25)"
    using forward_with_elementwise [where f = "\<lambda>a. exp (- (a\<^sup>2))"
        and self = "example_layer gaussian" and input = "tensor2 [[3, 4]]" and N = 1 and L = 2]
    by (auto simp: elementwise_gaussian layer_inv_def example_layer_def tensor2_def tensor1_def
        upt_conv_Cons sqrt_25)
  then obtain out where out: "fst (forward (example_layer gaussian) (tensor2 [[3, 4]])) = Inr out"
    "entry out [0, 0] = exp (- 25)"
    by blast
  from forward_leaves_state [of example_state "whole 2"]
  obtain res s' where run: "forward_r (whole 2) example_state = (res, s')"
    and obj: "self_obj s' = self_obj example_state"
    and new: "\<exists>new. tensors s' = tensors example_state @ new"
    and same: "layer_of s' = layer_of example_state"
      "deref s' (whole 2) = deref example_state (whole 2)"
    and res: "case res of
          Inl e \<Rightarrow> fst (forward (layer_of example_state) (deref example_state (whole 2))) = Inl e
        | Inr r \<Rightarrow>
            length (tensors example_state) \<le> addr r \<and> valid s' r \<and>
            fst (forward (layer_of example_state) (deref example_state (whole 2))) =
              Inr (deref s' r)"
    by (auto simp: valid_def example_state_def whole_def)
  from new have old: "take 3 (tensors s') = [tensor2 [[0, 0]], tensor1 [0], tensor2 [[3, 4]]]"
    by (auto simp: example_state_def)
  have len: "length (tensors example_state) = 3"
    by (simp add: example_state_def)
  from res out have "\<exists>r. res = Inr r \<and> 3 \<le> addr r \<and> entry (deref s' r) [0, 0] = exp (- 25)"
    by (cases res) (auto simp: layer inp len)
  with run obj old same show ?thesis
    by (simp add: layer inp)
qed

section \<open>The claims about construction\<close>

lemma Tensor_new_2:
  "Tensor_new can_alloc [a, b] mem =
     (if a < - (2 ^ 63) \<or> 2 ^ 63 \<le> a \<or> b < - (2 ^ 63) \<or> 2 ^ 63 \<le> b then Inl TypeError
      else if a < 0 \<or> b < 0 then Inl RuntimeError
      else if \<not> can_alloc [nat a, nat b] then Inl RuntimeError
      else Inr \<lparr>shape = [nat a, nat b], entry = mem\<rparr>)"
  by (simp add: Tensor_new_def)

lemma Tensor_new_1:
  "Tensor_new can_alloc [a] mem =
     (if a < - (2 ^ 63) \<or> 2 ^ 63 \<le> a then Inl TypeError
      else if a < 0 then Inl RuntimeError
      else if \<not> can_alloc [nat a] then Inl RuntimeError
      else Inr \<lparr>shape = [nat a], entry = mem\<rparr>)"
  by (simp add: Tensor_new_def)

lemma RBF_init_result:
  "RBF_init can_alloc in_feat out_feat basis mem draw =
     (if out_feat < - (2 ^ 63) \<or> 2 ^ 63 \<le> out_feat \<or> in_feat < - (2 ^ 63) \<or> 2 ^ 63 \<le> in_feat
      then Inl TypeError
      else if out_feat < 0 \<or> in_feat < 0 then Inl RuntimeError
      else if \<not> can_alloc [nat out_feat, nat in_feat] \<or> \<not> can_alloc [nat out_feat]
      then Inl RuntimeError
      else Inr \<lparr>in_features = in_feat, out_features = out_feat,
                centers = \<lparr>shape = [nat out_feat, nat in_feat], entry = \<lambda>idx. 0 + 1 * draw idx\<rparr>,
                log_sigmas = \<lparr>shape = [nat out_feat], entry = \<lambda>idx. 0\<rparr>,
                basis_func = basis\<rparr>)"
  by (simp add: RBF_init_def Tensor_new_2 Tensor_new_1 and_then_def reset_parameters_def
      init_normal_def init_constant_def)

text \<open>
  Claim C5, as the specification states it: construction fails when a dimension is
  \<open>\<le> 0\<close>, and has no other error path. Both parts fail. At \<open>in_features = 0\<close> the
  constructor returns a layer, whose \<open>centers\<close> have one row and no column. At
  \<open>in_features = 2^63\<close>, a positive dimension, it raises \<open>TypeError\<close>, and on a machine with
  room for 1000 entries it raises \<open>RuntimeError\<close> for a layer of 40 by 50.
\<close>

theorem RBF_init_zero_accepted:
  "\<not> isl (RBF_init small_machine 0 1 linear stale_mem sample_draw) \<and>
   shape (centers (projr (RBF_init small_machine 0 1 linear stale_mem sample_draw))) = [1, 0] \<and>
   shape (log_sigmas (projr (RBF_init small_machine 0 1 linear stale_mem sample_draw))) = [1] \<and>
   RBF_init small_machine (2 ^ 63) 1 linear stale_mem sample_draw = Inl TypeError \<and>
   RBF_init small_machine 50 40 linear stale_mem sample_draw = Inl RuntimeError"
  by (simp add: RBF_init_result small_machine_def)

text \<open>
  Claim C5, amended: construction fails whenever \<open>in_features\<close> or \<open>out_features\<close> is
  negative, and accepts a dimension of 0. It has exactly two more error paths, both in the
  allocation of the parameters: a dimension of \<open>2^63\<close> or more raises \<open>TypeError\<close>, and
  dimensions for which the machine cannot allocate \<open>centers\<close> or \<open>log_sigmas\<close> raise
  \<open>RuntimeError\<close>. In every other case it returns a layer that satisfies the invariant.
\<close>

theorem RBF_init_error_paths:
  "(in_feat < 0 \<or> out_feat < 0 \<longrightarrow>
      isl (RBF_init can_alloc in_feat out_feat basis mem draw)) \<and>
   (- (2 ^ 63) \<le> in_feat \<and> - (2 ^ 63) \<le> out_feat \<and> in_feat < 2 ^ 63 \<and> out_feat < 2 ^ 63 \<and>
    (in_feat < 0 \<or> out_feat < 0) \<longrightarrow>
      RBF_init can_alloc in_feat out_feat basis mem draw = Inl RuntimeError) \<and>
   (2 ^ 63 \<le> in_feat \<or> 2 ^ 63 \<le> out_feat \<longrightarrow>
      RBF_init can_alloc in_feat out_feat basis mem draw = Inl TypeError) \<and>
   (0 \<le> in_feat \<and> 0 \<le> out_feat \<and> in_feat < 2 ^ 63 \<and> out_feat < 2 ^ 63 \<and>
    \<not> (can_alloc [nat out_feat, nat in_feat] \<and> can_alloc [nat out_feat]) \<longrightarrow>
      RBF_init can_alloc in_feat out_feat basis mem draw = Inl RuntimeError) \<and>
   (0 \<le> in_feat \<and> 0 \<le> out_feat \<and> in_feat < 2 ^ 63 \<and> out_feat < 2 ^ 63 \<and>
    can_alloc [nat out_feat, nat in_feat] \<and> can_alloc [nat out_feat] \<longrightarrow>
      (\<exists>layer. RBF_init can_alloc in_feat out_feat basis mem draw = Inr layer \<and>
         layer_inv layer))"
  by (auto simp: RBF_init_result layer_inv_def)

theorem RBF_init_error_paths_witness:
  "RBF_init small_machine (- 1) 3 linear stale_mem sample_draw = Inl RuntimeError \<and>
   RBF_init small_machine 2 (- 3) linear stale_mem sample_draw = Inl RuntimeError \<and>
   RBF_init small_machine 2 (2 ^ 63) linear stale_mem sample_draw = Inl TypeError \<and>
   RBF_init small_machine 50 40 linear stale_mem sample_draw = Inl RuntimeError \<and>
   (\<exists>layer. RBF_init small_machine 0 1 linear stale_mem sample_draw = Inr layer \<and>
      layer_inv layer)"
  using RBF_init_error_paths [of "- 1" 3 small_machine linear stale_mem sample_draw]
    RBF_init_error_paths [of 2 "- 3" small_machine linear stale_mem sample_draw]
    RBF_init_error_paths [of 2 "2 ^ 63" small_machine linear stale_mem sample_draw]
    RBF_init_error_paths [of 50 40 small_machine linear stale_mem sample_draw]
    RBF_init_error_paths [of 0 1 small_machine linear stale_mem sample_draw]
  by (simp add: small_machine_def)

text \<open>
  Claim C6. For \<open>in_features > 0\<close> and \<open>out_features > 0\<close>, the layer that the constructor
  returns has \<open>centers\<close> of shape \<open>out_features \<times> in_features\<close>, and \<open>log_sigmas\<close> of length
  \<open>out_features\<close> that are all exactly 0, whatever the memory held, so that every bandwidth
  \<open>exp (log_sigmas[j])\<close> is 1. The layer keeps the dimensions and the basis function it was
  given, and its centers are the normal draws. The constructor does return a layer when
  the dimensions are below \<open>2^63\<close> and the machine can allocate both parameters.
\<close>

theorem RBF_init_parameters:
  assumes "0 < in_feat" and "0 < out_feat"
  shows "(\<forall>layer. RBF_init can_alloc in_feat out_feat basis mem draw = Inr layer \<longrightarrow>
           in_features layer = in_feat \<and> out_features layer = out_feat \<and>
           basis_func layer = basis \<and>
           shape (centers layer) = [nat out_feat, nat in_feat] \<and>
           shape (log_sigmas layer) = [nat out_feat] \<and>
           (\<forall>idx. entry (centers layer) idx = draw idx) \<and>
           (\<forall>idx. entry (log_sigmas layer) idx = 0) \<and>
           (\<forall>idx. exp (entry (log_sigmas layer) idx) = 1)) \<and>
         (in_feat < 2 ^ 63 \<and> out_feat < 2 ^ 63 \<and>
          can_alloc [nat out_feat, nat in_feat] \<and> can_alloc [nat out_feat] \<longrightarrow>
            (\<exists>layer. RBF_init can_alloc in_feat out_feat basis mem draw = Inr layer))"
  using assms by (auto simp: RBF_init_result split: if_splits)

theorem RBF_init_parameters_witness:
  "\<exists>layer. RBF_init small_machine 5 2 gaussian stale_mem sample_draw = Inr layer \<and>
           shape (centers layer) = [2, 5] \<and> shape (log_sigmas layer) = [2] \<and>
           entry (centers layer) [1, 3] = - 7 / 2 \<and>
           entry (log_sigmas layer) [0] = 0 \<and> entry (log_sigmas layer) [1] = 0 \<and>
           exp (entry (log_sigmas layer) [1]) = 1 \<and> stale_mem [1] = 7"
  using RBF_init_parameters [of 5 2 small_machine gaussian stale_mem sample_draw]
  by (auto simp: small_machine_def sample_draw_def stale_mem_def)

section \<open>The claims about the basis functions\<close>

lemma elementwise_at:
  assumes "elementwise f bf" and "in_range (shape t) idx"
  shows "\<exists>out. bf t = Inr out \<and> shape out = shape t \<and> entry out idx = f (entry t idx)"
  using assms unfolding elementwise_def by blast

lemma in_range_tensor0: "in_range (shape (tensor0 v)) []"
  by (simp add: in_range_def tensor0_def)

text \<open>
  Claim C3. \<open>poisson_two\<close>, computed with the operations and the precedence of its source
  line, gives at every entry \<open>alpha\<close> of its argument the value
  \<open>((alpha - 2) / 2) * alpha * exp (- alpha)\<close> of the specification's table: on every
  tensor, hence for every \<open>alpha \<ge> 0\<close>, and without raising.
\<close>

theorem poisson_two_refines_spec: "elementwise poisson_two_spec poisson_two"
proof -
  have "(\<lambda>a. (a - 2 * 1) / 2 * 1 * a * exp (- a)) = poisson_two_spec"
    by (rule ext) (simp add: poisson_two_spec_def)
  with elementwise_poisson_two show ?thesis
    by simp
qed

theorem poisson_two_refines_spec_witness:
  "\<exists>out. poisson_two (tensor0 4) = Inr out \<and> shape out = [] \<and> entry out [] = 4 * exp (- 4)"
  using elementwise_at [OF poisson_two_refines_spec in_range_tensor0, of 4]
  by (simp add: tensor0_def poisson_two_spec_def)

text \<open>
  Claim C4. Subscripting the catalog with each of the eleven documented names, spelled with
  spaces, returns the function of that name; every function the catalog returns applies a
  scalar function elementwise to every tensor and never raises; and subscripting with any
  other name raises \<open>KeyError\<close>.
\<close>

theorem catalog_lookup:
  "getitem basis_func_dict ''gaussian'' = Inr gaussian \<and>
   getitem basis_func_dict ''linear'' = Inr linear \<and>
   getitem basis_func_dict ''quadratic'' = Inr quadratic \<and>
   getitem basis_func_dict ''inverse quadratic'' = Inr inverse_quadratic \<and>
   getitem basis_func_dict ''multiquadric'' = Inr multiquadric \<and>
   getitem basis_func_dict ''inverse multiquadric'' = Inr inverse_multiquadric \<and>
   getitem basis_func_dict ''spline'' = Inr spline \<and>
   getitem basis_func_dict ''poisson one'' = Inr poisson_one \<and>
   getitem basis_func_dict ''poisson two'' = Inr poisson_two \<and>
   getitem basis_func_dict ''matern32'' = Inr matern32 \<and>
   getitem basis_func_dict ''matern52'' = Inr matern52 \<and>
   (\<forall>bf. getitem basis_func_dict name = Inr bf \<longrightarrow> (\<exists>f. elementwise f bf)) \<and>
   (name \<notin> {''gaussian'', ''linear'', ''quadratic'', ''inverse quadratic'', ''multiquadric'',
              ''inverse multiquadric'', ''spline'', ''poisson one'', ''poisson two'',
              ''matern32'', ''matern52''} \<longrightarrow>
      getitem basis_func_dict name = Inl KeyError)"
proof -
  have names: "getitem basis_func_dict ''gaussian'' = Inr gaussian"
    "getitem basis_func_dict ''linear'' = Inr linear"
    "getitem basis_func_dict ''quadratic'' = Inr quadratic"
    "getitem basis_func_dict ''inverse quadratic'' = Inr inverse_quadratic"
    "getitem basis_func_dict ''multiquadric'' = Inr multiquadric"
    "getitem basis_func_dict ''inverse multiquadric'' = Inr inverse_multiquadric"
    "getitem basis_func_dict ''spline'' = Inr spline"
    "getitem basis_func_dict ''poisson one'' = Inr poisson_one"
    "getitem basis_func_dict ''poisson two'' = Inr poisson_two"
    "getitem basis_func_dict ''matern32'' = Inr matern32"
    "getitem basis_func_dict ''matern52'' = Inr matern52"
    by (simp_all add: getitem_def basis_func_dict_def)
  have usable: "\<exists>f. elementwise f bf" if "getitem basis_func_dict name = Inr bf" for bf
  proof -
    from that have "bf \<in> snd ` set basis_func_dict"
      by (auto simp: getitem_def split: option.splits dest: map_of_SomeD intro: rev_image_eqI)
    then consider "bf = gaussian" | "bf = linear" | "bf = quadratic" | "bf = inverse_quadratic"
      | "bf = multiquadric" | "bf = inverse_multiquadric" | "bf = spline" | "bf = poisson_one"
      | "bf = poisson_two" | "bf = matern32" | "bf = matern52"
      by (auto simp: basis_func_dict_def)
    then show ?thesis
      using elementwise_gaussian elementwise_linear elementwise_quadratic
        elementwise_inverse_quadratic elementwise_multiquadric elementwise_inverse_multiquadric
        elementwise_spline elementwise_poisson_one elementwise_poisson_two elementwise_matern32
        elementwise_matern52
      by cases blast+
  qed
  have absent: "getitem basis_func_dict name = Inl KeyError"
    if "name \<notin> {''gaussian'', ''linear'', ''quadratic'', ''inverse quadratic'', ''multiquadric'',
              ''inverse multiquadric'', ''spline'', ''poisson one'', ''poisson two'',
              ''matern32'', ''matern52''}"
  proof -
    from that have "name \<notin> fst ` set basis_func_dict"
      by (simp add: basis_func_dict_def)
    then have "map_of basis_func_dict name = None"
      by (simp add: map_of_eq_None_iff)
    then show ?thesis
      by (simp add: getitem_def)
  qed
  from names usable absent show ?thesis
    by blast
qed

theorem catalog_lookup_witness:
  "getitem basis_func_dict ''nonexistent'' = Inl KeyError \<and>
   getitem basis_func_dict ''inverse_quadratic'' = Inl KeyError \<and>
   getitem basis_func_dict ''inverse quadratic'' = Inr inverse_quadratic \<and>
   (\<exists>f. elementwise f inverse_quadratic)"
  using catalog_lookup [of "''nonexistent''"] catalog_lookup [of "''inverse_quadratic''"]
    catalog_lookup [of "''inverse quadratic''"]
  by simp

text \<open>
  Claim C7. At an entry where the scaled distance is 0, \<open>gaussian\<close>, \<open>inverse_quadratic\<close>,
  \<open>multiquadric\<close>, \<open>inverse_multiquadric\<close>, \<open>matern32\<close> and \<open>matern52\<close> return exactly 1,
  and \<open>linear\<close>, \<open>quadratic\<close> and \<open>spline\<close> return exactly 0.
\<close>

theorem basis_functions_at_zero:
  assumes "in_range (shape alpha) idx" and "entry alpha idx = 0"
  shows "(\<exists>out. gaussian alpha = Inr out \<and> entry out idx = 1) \<and>
         (\<exists>out. linear alpha = Inr out \<and> entry out idx = 0) \<and>
         (\<exists>out. quadratic alpha = Inr out \<and> entry out idx = 0) \<and>
         (\<exists>out. inverse_quadratic alpha = Inr out \<and> entry out idx = 1) \<and>
         (\<exists>out. multiquadric alpha = Inr out \<and> entry out idx = 1) \<and>
         (\<exists>out. inverse_multiquadric alpha = Inr out \<and> entry out idx = 1) \<and>
         (\<exists>out. spline alpha = Inr out \<and> entry out idx = 0) \<and>
         (\<exists>out. matern32 alpha = Inr out \<and> entry out idx = 1) \<and>
         (\<exists>out. matern52 alpha = Inr out \<and> entry out idx = 1)"
proof (intro conjI)
  show "\<exists>out. gaussian alpha = Inr out \<and> entry out idx = 1"
    using elementwise_at [OF elementwise_gaussian assms(1)] assms(2) by auto
  show "\<exists>out. linear alpha = Inr out \<and> entry out idx = 0"
    using elementwise_at [OF elementwise_linear assms(1)] assms(2) by auto
  show "\<exists>out. quadratic alpha = Inr out \<and> entry out idx = 0"
    using elementwise_at [OF elementwise_quadratic assms(1)] assms(2) by auto
  show "\<exists>out. inverse_quadratic alpha = Inr out \<and> entry out idx = 1"
    using elementwise_at [OF elementwise_inverse_quadratic assms(1)] assms(2) by auto
  show "\<exists>out. multiquadric alpha = Inr out \<and> entry out idx = 1"
    using elementwise_at [OF elementwise_multiquadric assms(1)] assms(2) by auto
  show "\<exists>out. inverse_multiquadric alpha = Inr out \<and> entry out idx = 1"
    using elementwise_at [OF elementwise_inverse_multiquadric assms(1)] assms(2) by auto
  show "\<exists>out. spline alpha = Inr out \<and> entry out idx = 0"
    using elementwise_at [OF elementwise_spline assms(1)] assms(2) by auto
  show "\<exists>out. matern32 alpha = Inr out \<and> entry out idx = 1"
    using elementwise_at [OF elementwise_matern32 assms(1)] assms(2) by auto
  show "\<exists>out. matern52 alpha = Inr out \<and> entry out idx = 1"
    using elementwise_at [OF elementwise_matern52 assms(1)] assms(2) by auto
qed

theorem basis_functions_at_zero_witness:
  "(\<exists>out. gaussian (tensor1 [0, 7]) = Inr out \<and> entry out [0] = 1) \<and>
   (\<exists>out. linear (tensor1 [0, 7]) = Inr out \<and> entry out [0] = 0) \<and>
   (\<exists>out. quadratic (tensor1 [0, 7]) = Inr out \<and> entry out [0] = 0) \<and>
   (\<exists>out. inverse_quadratic (tensor1 [0, 7]) = Inr out \<and> entry out [0] = 1) \<and>
   (\<exists>out. multiquadric (tensor1 [0, 7]) = Inr out \<and> entry out [0] = 1) \<and>
   (\<exists>out. inverse_multiquadric (tensor1 [0, 7]) = Inr out \<and> entry out [0] = 1) \<and>
   (\<exists>out. spline (tensor1 [0, 7]) = Inr out \<and> entry out [0] = 0) \<and>
   (\<exists>out. matern32 (tensor1 [0, 7]) = Inr out \<and> entry out [0] = 1) \<and>
   (\<exists>out. matern52 (tensor1 [0, 7]) = Inr out \<and> entry out [0] = 1)"
  using basis_functions_at_zero [of "tensor1 [0, 7]" "[0]"]
  by (simp add: tensor1_def in_range_def)

end
